theory Spec2Isabelle
  imports Complex_Main
begin

section \<open>liberrc: values with a measurement error (errc.h)\<close>

text \<open>
  The header defines \<^verbatim>\<open>template <typename T = long double, typename E = long double>
  class ErrorValue\<close> and the namespace \<^verbatim>\<open>errmath\<close> of functions that propagate the
  error through the functions of \<^verbatim>\<open><cmath>\<close>. The embedding is of the default
  instantiation, where both \<^verbatim>\<open>T\<close> and \<^verbatim>\<open>E\<close> are \<^verbatim>\<open>long double\<close>.
\<close>

subsection \<open>The numbers: long double\<close>

text \<open>
  A \<^verbatim>\<open>long double\<close> is a finite number, one of the two infinities, or NaN. The
  operations below follow IEEE 754 on the special values (a division by zero gives an
  infinity or NaN and raises nothing, NaN propagates, a comparison with NaN is false).
  On finite numbers they are exact: rounding and overflow are not modelled, and there
  is one zero, which behaves as the positive zero of IEEE 754. A theorem below
  therefore either evaluates the code at numbers where \<^verbatim>\<open>long double\<close> is exact as
  well, or is stated with these operations and concludes only what neither rounding
  nor overflow changes (a NaN, an infinity, an order between two numbers).
\<close>

datatype fp = Fin real | PInf | NInf | NaN

fun is_finite :: "fp \<Rightarrow> bool" where
  "is_finite (Fin a) = True"
| "is_finite PInf = False"
| "is_finite NInf = False"
| "is_finite NaN = False"

fun fneg :: "fp \<Rightarrow> fp" where
  "fneg (Fin a) = Fin (- a)"
| "fneg PInf = NInf"
| "fneg NInf = PInf"
| "fneg NaN = NaN"

fun fadd :: "fp \<Rightarrow> fp \<Rightarrow> fp" where
  "fadd (Fin a) (Fin b) = Fin (a + b)"
| "fadd (Fin a) PInf = PInf"
| "fadd (Fin a) NInf = NInf"
| "fadd (Fin a) NaN = NaN"
| "fadd PInf (Fin b) = PInf"
| "fadd PInf PInf = PInf"
| "fadd PInf NInf = NaN"
| "fadd PInf NaN = NaN"
| "fadd NInf (Fin b) = NInf"
| "fadd NInf PInf = NaN"
| "fadd NInf NInf = NInf"
| "fadd NInf NaN = NaN"
| "fadd NaN y = NaN"

definition fsub :: "fp \<Rightarrow> fp \<Rightarrow> fp" where
  "fsub x y = fadd x (fneg y)"

fun fmul :: "fp \<Rightarrow> fp \<Rightarrow> fp" where
  "fmul (Fin a) (Fin b) = Fin (a * b)"
| "fmul (Fin a) PInf = (if a = 0 then NaN else if 0 < a then PInf else NInf)"
| "fmul (Fin a) NInf = (if a = 0 then NaN else if 0 < a then NInf else PInf)"
| "fmul (Fin a) NaN = NaN"
| "fmul PInf (Fin b) = (if b = 0 then NaN else if 0 < b then PInf else NInf)"
| "fmul PInf PInf = PInf"
| "fmul PInf NInf = NInf"
| "fmul PInf NaN = NaN"
| "fmul NInf (Fin b) = (if b = 0 then NaN else if 0 < b then NInf else PInf)"
| "fmul NInf PInf = NInf"
| "fmul NInf NInf = PInf"
| "fmul NInf NaN = NaN"
| "fmul NaN y = NaN"

fun fdiv :: "fp \<Rightarrow> fp \<Rightarrow> fp" where
  "fdiv (Fin a) (Fin b) =
     (if b = 0 then (if a = 0 then NaN else if 0 < a then PInf else NInf)
      else Fin (a / b))"
| "fdiv (Fin a) PInf = Fin 0"
| "fdiv (Fin a) NInf = Fin 0"
| "fdiv (Fin a) NaN = NaN"
| "fdiv PInf (Fin b) = (if b < 0 then NInf else PInf)"
| "fdiv PInf PInf = NaN"
| "fdiv PInf NInf = NaN"
| "fdiv PInf NaN = NaN"
| "fdiv NInf (Fin b) = (if b < 0 then PInf else NInf)"
| "fdiv NInf PInf = NaN"
| "fdiv NInf NInf = NaN"
| "fdiv NInf NaN = NaN"
| "fdiv NaN y = NaN"


text \<open>
  The functions of \<^verbatim>\<open><cmath>\<close> that the claims need. Outside its domain a function
  returns NaN (\<^verbatim>\<open>log\<close> at zero returns minus infinity) and raises nothing.
\<close>

fun fsqrt :: "fp \<Rightarrow> fp" where
  "fsqrt (Fin a) = (if a < 0 then NaN else Fin (sqrt a))"
| "fsqrt PInf = PInf"
| "fsqrt NInf = NaN"
| "fsqrt NaN = NaN"



fun fatan :: "fp \<Rightarrow> fp" where
  "fatan (Fin a) = Fin (arctan a)"
| "fatan PInf = Fin (pi / 2)"
| "fatan NInf = Fin (- pi / 2)"
| "fatan NaN = NaN"



subsection \<open>Exceptions\<close>

text \<open>
  The only exception the header throws itself is \<^verbatim>\<open>std::range_error\<close>, with a
  message. Calling an empty \<^verbatim>\<open>std::function\<close> throws \<^verbatim>\<open>std::bad_function_call\<close>.
\<close>

datatype exn = range_error string | bad_function_call

text \<open>\<^verbatim>\<open>std::to_string(int)\<close>: the decimal digits, with a minus sign when negative.\<close>

fun to_string_nat :: "nat \<Rightarrow> string" where
  "to_string_nat n =
     (if n < 10 then [''0123456789'' ! n]
      else to_string_nat (n div 10) @ [''0123456789'' ! (n mod 10)])"

definition to_string :: "int \<Rightarrow> string" where
  "to_string i = (if i < 0 then CHR ''-'' # to_string_nat (nat (- i)) else to_string_nat (nat i))"

subsection \<open>The class ErrorValue\<close>

text \<open>
  The data members. \<^verbatim>\<open>value\<close> and \<^verbatim>\<open>error\<close> are public; the word \<open>value\<close> is
  reserved in theory text, so both fields carry the prefix \<open>ev_\<close>. The two protected
  members hold the default-error policy: the code of the active mode, and the custom
  function, where \<open>None\<close> is the empty \<^verbatim>\<open>std::function\<close> (\<^verbatim>\<open>nullptr\<close>). A bare
  literal handed to the custom function is a finite number, a \<open>real\<close>.
\<close>

record ErrorValue =
  ev_value :: fp
  ev_error :: fp
  numberDefaultErrorCode :: int
  defaultErrorCalcFunction :: "(real \<Rightarrow> fp) option"

definition DEF_ERROR_ZERO :: int where
  "DEF_ERROR_ZERO = 0"

definition DEF_ERROR_HALF :: int where
  "DEF_ERROR_HALF = 1"

definition DEF_ERROR_FUNC :: int where
  "DEF_ERROR_FUNC = 2"

text \<open>
  The constructor \<^verbatim>\<open>ErrorValue(T value_, E error_)\<close>: both numbers are stored as
  given, and the policy members take their default member initialisers.
\<close>

definition ErrorValue_ctor :: "fp \<Rightarrow> fp \<Rightarrow> ErrorValue" where
  "ErrorValue_ctor value_0 error_0 =
     \<lparr>ev_value = value_0, ev_error = error_0,
      numberDefaultErrorCode = DEF_ERROR_ZERO, defaultErrorCalcFunction = None\<rparr>"

text \<open>
  \<^verbatim>\<open>setDefaultErrorCalculationMethod(int code, std::function<E(T)> fun = nullptr)\<close>.
  The \<^verbatim>\<open>switch\<close> has four labels and no \<^verbatim>\<open>break\<close>: the case of
  \<^verbatim>\<open>DEF_ERROR_FUNC\<close> stores the function and falls through, the cases of
  \<^verbatim>\<open>DEF_ERROR_ZERO\<close> and \<^verbatim>\<open>DEF_ERROR_HALF\<close> store the code, and control then
  runs on into \<^verbatim>\<open>default\<close>, which throws. The receiver is returned as the
  assignments left it, next to the exception.
\<close>

definition setDefaultErrorCalculationMethod ::
  "int \<Rightarrow> (real \<Rightarrow> fp) option \<Rightarrow> ErrorValue \<Rightarrow> (exn + unit) \<times> ErrorValue" where
  "setDefaultErrorCalculationMethod code fun0 this =
     (let this1 = (if code = DEF_ERROR_FUNC
                   then this\<lparr>defaultErrorCalcFunction := fun0\<rparr> else this);
          this2 = (if code = DEF_ERROR_FUNC \<or> code = DEF_ERROR_ZERO \<or> code = DEF_ERROR_HALF
                   then this1\<lparr>numberDefaultErrorCode := code\<rparr> else this1)
      in (Inl (range_error (''Invalid default error function code: '' @ to_string code)),
          this2))"

definition getDefaultErrorCalculationMethod :: "ErrorValue \<Rightarrow> int" where
  "getDefaultErrorCalculationMethod this = numberDefaultErrorCode this"

definition getDefaultErrorCalcFunction :: "ErrorValue \<Rightarrow> (real \<Rightarrow> fp) option" where
  "getDefaultErrorCalcFunction this =
     (if numberDefaultErrorCode this \<noteq> DEF_ERROR_FUNC then None
      else defaultErrorCalcFunction this)"



subsection \<open>The half-unit error of a bare literal\<close>

text \<open>
  \<^verbatim>\<open>halfErrorCalcFunction(T x)\<close> takes the remainder \<^verbatim>\<open>x % 10\<close>, an operator that
  C++ has on integral types only: the function body is well-formed for an integral
  \<^verbatim>\<open>T\<close> and ill-formed for \<^verbatim>\<open>long double\<close>. The embedding of this one function is
  therefore of an instantiation with an integral \<^verbatim>\<open>T\<close>, and \<open>x\<close> is an integer.
  \<^item> \<^verbatim>\<open>floor(x)\<close> converts \<open>x\<close> to a floating number first, and
    \<^verbatim>\<open>floor(x) == x\<close> compares the two as numbers.
  \<^item> \<^verbatim>\<open>while (x % 10 == 0) { c++; x /= 10; }\<close>: the remainder is zero exactly when
    ten divides \<open>x\<close>, and the division is then exact. The loop has no bound and never
    leaves \<open>x = 0\<close>; a loop that does not return is the value \<open>None\<close>.
  \<^item> \<^verbatim>\<open>while (floor(x) != x) { c++; x *= 10; }\<close> is the loop of the other branch.
  \<^item> The counter \<open>c\<close> is a \<^verbatim>\<open>long double\<close> holding a whole number, an \<open>int\<close>
    here, and \<^verbatim>\<open>pow(10, c)\<close> is the integer power \<open>10 powi c\<close>.
\<close>

partial_function (option) halfErrorCalcFunction_while1 :: "int \<Rightarrow> int \<Rightarrow> int option" where
  "halfErrorCalcFunction_while1 x c =
     (if x mod 10 = 0 then halfErrorCalcFunction_while1 (x div 10) (c + 1) else Some c)"

partial_function (option) halfErrorCalcFunction_while2 :: "int \<Rightarrow> int \<Rightarrow> int option" where
  "halfErrorCalcFunction_while2 x c =
     (if of_int \<lfloor>real_of_int x\<rfloor> \<noteq> real_of_int x
      then halfErrorCalcFunction_while2 (x * 10) (c + 1) else Some c)"

definition halfErrorCalcFunction :: "int \<Rightarrow> fp option" where
  "halfErrorCalcFunction x =
     (if of_int \<lfloor>real_of_int x\<rfloor> = real_of_int x
      then (case halfErrorCalcFunction_while1 x 0 of
              None \<Rightarrow> None
            | Some c \<Rightarrow> Some (Fin (5 * 10 powi (c - 1))))
      else (case halfErrorCalcFunction_while2 x 0 of
              None \<Rightarrow> None
            | Some c \<Rightarrow> Some (Fin (5 * 10 powi (- c - 1)))))"

text \<open>
  A bare literal reaches the function through a parameter \<^verbatim>\<open>T value_\<close>, as in
  \<^verbatim>\<open>operator+=(T value_)\<close>. A floating literal handed to an integral \<^verbatim>\<open>T\<close> is
  converted on the way: its fractional part is discarded.
\<close>

definition T_of_literal :: "real \<Rightarrow> int" where
  "T_of_literal x = (if 0 \<le> x then \<lfloor>x\<rfloor> else \<lceil>x\<rceil>)"

subsection \<open>Compound assignment, on a store of objects\<close>

text \<open>
  A compound assignment writes the receiver \<^verbatim>\<open>*this\<close> and reads the operand through
  the reference \<^verbatim>\<open>ev\<close>, which may be the receiver itself (\<^verbatim>\<open>a *= a\<close>). The objects
  live in a store, a list indexed by address; a reference is an address. Each statement
  of a body is one step on the store, in the source's order, so that a read through
  \<^verbatim>\<open>ev\<close> after a write to \<^verbatim>\<open>*this\<close> sees the write when both are one object.
\<close>

type_synonym addr = nat

type_synonym store = "ErrorValue list"

definition rd_value :: "store \<Rightarrow> addr \<Rightarrow> fp" where
  "rd_value s p = ev_value (s ! p)"

definition rd_error :: "store \<Rightarrow> addr \<Rightarrow> fp" where
  "rd_error s p = ev_error (s ! p)"

definition wr_value :: "addr \<Rightarrow> fp \<Rightarrow> store \<Rightarrow> store" where
  "wr_value p v s = s[p := (s ! p)\<lparr>ev_value := v\<rparr>]"

definition wr_error :: "addr \<Rightarrow> fp \<Rightarrow> store \<Rightarrow> store" where
  "wr_error p e s = s[p := (s ! p)\<lparr>ev_error := e\<rparr>]"

text \<open>
  How a call ends. The four operators \<^verbatim>\<open>ErrorValue operator+=(const ErrorValue &ev)\<close>,
  \<^verbatim>\<open>-=\<close>, \<^verbatim>\<open>*=\<close> and \<^verbatim>\<open>/=\<close> are declared to return an \<^verbatim>\<open>ErrorValue\<close>, and
  their bodies hold assignments only: no \<^verbatim>\<open>return\<close> and no \<^verbatim>\<open>throw\<close>. Control
  reaches the closing brace of a function that must return a value, and from there
  the behaviour of the program is undefined. \<open>FlowsOffEnd s\<close> is that end, with the
  store \<open>s\<close> the statements of the body have computed when the brace is reached; it
  promises nothing about what a compiled program does.
\<close>

datatype 'a outcome = Returns 'a store | Throws exn store | FlowsOffEnd store

definition add_assign :: "addr \<Rightarrow> addr \<Rightarrow> store \<Rightarrow> ErrorValue outcome" where
  "add_assign this ev s0 =
     (let s1 = wr_value this (fadd (rd_value s0 this) (rd_value s0 ev)) s0;
          s2 = wr_error this (fadd (rd_error s1 this) (rd_error s1 ev)) s1
      in FlowsOffEnd s2)"

definition sub_assign :: "addr \<Rightarrow> addr \<Rightarrow> store \<Rightarrow> ErrorValue outcome" where
  "sub_assign this ev s0 =
     (let s1 = wr_value this (fsub (rd_value s0 this) (rd_value s0 ev)) s0;
          s2 = wr_error this (fadd (rd_error s1 this) (rd_error s1 ev)) s1
      in FlowsOffEnd s2)"

definition mul_assign :: "addr \<Rightarrow> addr \<Rightarrow> store \<Rightarrow> ErrorValue outcome" where
  "mul_assign this ev s0 =
     (let oldV = rd_value s0 this;
          s1 = wr_value this (fmul (rd_value s0 this) (rd_value s0 ev)) s0;
          s2 = wr_error this
                 (fmul (rd_value s1 this)
                    (fadd (fdiv (rd_error s1 this) oldV)
                          (fdiv (rd_error s1 ev) (rd_value s1 ev)))) s1
      in FlowsOffEnd s2)"

definition div_assign :: "addr \<Rightarrow> addr \<Rightarrow> store \<Rightarrow> ErrorValue outcome" where
  "div_assign this ev s0 =
     (let oldV = rd_value s0 this;
          s1 = wr_value this (fdiv (rd_value s0 this) (rd_value s0 ev)) s0;
          s2 = wr_error this
                 (fmul (rd_value s1 this)
                    (fadd (fdiv (rd_error s1 this) oldV)
                          (fdiv (rd_error s1 ev) (rd_value s1 ev)))) s1
      in FlowsOffEnd s2)"

subsection \<open>The binary operators\<close>

text \<open>
  \<^verbatim>\<open>ErrorValue operator*(const ErrorValue &ev) const
  { ErrorValue res = *this; res *= ev; return res; }\<close> and its three siblings. The
  local \<^verbatim>\<open>res\<close> is a new object at the end of the store, a copy of the receiver
  with its policy members, and the compound assignment is called on it. If that call
  returned, its value would be dropped and the operator would return the contents of
  \<^verbatim>\<open>res\<close>, the local leaving the store; an exception would pass through, the
  local leaving the store as well; and where the call flows off its end, so does the
  program, with \<^verbatim>\<open>res\<close> still in the store.
\<close>

definition run_on_copy ::
  "(addr \<Rightarrow> addr \<Rightarrow> store \<Rightarrow> ErrorValue outcome) \<Rightarrow> addr \<Rightarrow> addr \<Rightarrow> store
     \<Rightarrow> ErrorValue outcome" where
  "run_on_copy assign this ev s0 =
     (let res = length s0;
          s1 = s0 @ [s0 ! this]
      in (case assign res ev s1 of
            Returns r s2 \<Rightarrow> Returns (s2 ! res) (butlast s2)
          | Throws e s2 \<Rightarrow> Throws e (butlast s2)
          | FlowsOffEnd s2 \<Rightarrow> FlowsOffEnd s2))"

definition op_add :: "addr \<Rightarrow> addr \<Rightarrow> store \<Rightarrow> ErrorValue outcome" where
  "op_add this ev s0 = run_on_copy add_assign this ev s0"

definition op_sub :: "addr \<Rightarrow> addr \<Rightarrow> store \<Rightarrow> ErrorValue outcome" where
  "op_sub this ev s0 = run_on_copy sub_assign this ev s0"

definition op_mul :: "addr \<Rightarrow> addr \<Rightarrow> store \<Rightarrow> ErrorValue outcome" where
  "op_mul this ev s0 = run_on_copy mul_assign this ev s0"

definition op_div :: "addr \<Rightarrow> addr \<Rightarrow> store \<Rightarrow> ErrorValue outcome" where
  "op_div this ev s0 = run_on_copy div_assign this ev s0"

subsection \<open>The namespace errmath\<close>

text \<open>
  Each function reads its argument through a \<^verbatim>\<open>const\<close> reference and builds a new
  object with the two-argument constructor; the calls inside a body are those of
  \<^verbatim>\<open><cmath>\<close> on the numbers. No body has a \<^verbatim>\<open>throw\<close>.
  \<^item> \<^verbatim>\<open>sqrt\<close>: \<^verbatim>\<open>ErrorValue(sqrt(x.value), x.error/2*sqrt(x.value))\<close>, where
    \<^verbatim>\<open>/\<close> and \<^verbatim>\<open>*\<close> associate to the left;
  \<^item> \<^verbatim>\<open>atan\<close>: \<^verbatim>\<open>ErrorValue(atan(x.value), x.error/sqrt(1 + x.value*x.value))\<close>;
  \<^item> \<^verbatim>\<open>asin\<close>: \<^verbatim>\<open>ErrorValue(asin(x.value), x.error/sqrt(1 - x.value*x.value))\<close>;
  \<^item> \<^verbatim>\<open>acos\<close>: \<^verbatim>\<open>ErrorValue(acos(x.value), x.error/sqrt(1 - x.value*x.value))\<close>;
  \<^item> \<^verbatim>\<open>log\<close>: \<^verbatim>\<open>ErrorValue(log(x.value), x.error/x.value)\<close>;
  \<^item> \<^verbatim>\<open>acosh\<close>: \<^verbatim>\<open>ErrorValue(acosh(x.value), x.error/sqrt(x.value*x.value - 1))\<close>.
\<close>

definition errmath_sqrt :: "ErrorValue \<Rightarrow> exn + ErrorValue" where
  "errmath_sqrt x =
     Inr (ErrorValue_ctor (fsqrt (ev_value x))
            (fmul (fdiv (ev_error x) (Fin 2)) (fsqrt (ev_value x))))"

definition errmath_atan :: "ErrorValue \<Rightarrow> exn + ErrorValue" where
  "errmath_atan x =
     Inr (ErrorValue_ctor (fatan (ev_value x))
            (fdiv (ev_error x) (fsqrt (fadd (Fin 1) (fmul (ev_value x) (ev_value x))))))"





subsection \<open>The specification's formula for the error of a product\<close>



section \<open>Theorems\<close>

subsection \<open>The setter of the default-error policy\<close>

lemma setDefaultErrorCalculationMethod_always_throws:
  "fst (setDefaultErrorCalculationMethod code fun0 this) =
     Inl (range_error (''Invalid default error function code: '' @ to_string code))"
  by (simp add: setDefaultErrorCalculationMethod_def Let_def)

lemma setDefaultErrorCalculationMethod_receiver:
  "snd (setDefaultErrorCalculationMethod code fun0 this) =
     (if code = DEF_ERROR_FUNC
      then this\<lparr>defaultErrorCalcFunction := fun0, numberDefaultErrorCode := code\<rparr>
      else if code = DEF_ERROR_ZERO \<or> code = DEF_ERROR_HALF
      then this\<lparr>numberDefaultErrorCode := code\<rparr>
      else this)"
  by (simp add: setDefaultErrorCalculationMethod_def Let_def)

text \<open>
  Claim C1: \<^verbatim>\<open>setDefaultErrorCalculationMethod\<close> accepts the modes Zero and HalfUnit
  unconditionally and sets the active mode. The code does not: called with
  \<^verbatim>\<open>DEF_ERROR_HALF\<close> and no function on \<^verbatim>\<open>ErrorValue(1, 0)\<close>, it stores the mode and
  then throws \<^verbatim>\<open>std::range_error\<close>, because the accepted cases run on into
  \<^verbatim>\<open>default\<close>.
\<close>

theorem setDefaultErrorCalculationMethod_half_throws:
  "setDefaultErrorCalculationMethod DEF_ERROR_HALF None (ErrorValue_ctor (Fin 1) (Fin 0)) =
     (Inl (range_error ''Invalid default error function code: 1''),
      (ErrorValue_ctor (Fin 1) (Fin 0))\<lparr>numberDefaultErrorCode := DEF_ERROR_HALF\<rparr>)"
  by (simp add: setDefaultErrorCalculationMethod_def DEF_ERROR_HALF_def DEF_ERROR_FUNC_def
      DEF_ERROR_ZERO_def to_string_def)

subsection \<open>The square root and the arc tangent\<close>

text \<open>
  Claim C7: for \<open>value(x) > 0\<close>, \<^verbatim>\<open>errmath::sqrt(x)\<close> has the error
  \<open>error(x) / (2 * sqrt(value(x)))\<close>. The code computes
  \<open>(error(x) / 2) * sqrt(value(x))\<close>: at \<^verbatim>\<open>ErrorValue(4, 1)\<close> it returns the error
  \<open>1\<close>, where the claim's formula gives \<open>1/4\<close>.
\<close>

theorem errmath_sqrt_at_4_1:
  "errmath_sqrt (ErrorValue_ctor (Fin 4) (Fin 1)) = Inr (ErrorValue_ctor (Fin 2) (Fin 1))
   \<and> (1::real) / (2 * sqrt 4) = 1 / 4"
  by (simp add: errmath_sqrt_def ErrorValue_ctor_def)

lemma sqrt_25_16: "sqrt (25 / 16) = 5 / 4"
  by (rule real_sqrt_unique) (simp_all add: power2_eq_square)

text \<open>
  Claim C8: \<^verbatim>\<open>errmath::atan(x)\<close> has the error \<open>error(x) / (1 + value(x)^2)\<close>. The
  code divides by the square root of \<open>1 + value(x)^2\<close>: at \<^verbatim>\<open>ErrorValue(0.75, 1)\<close> it
  returns the error \<open>4/5\<close>, where the claim's formula gives \<open>16/25\<close>.
\<close>

theorem errmath_atan_at_3_4:
  "errmath_atan (ErrorValue_ctor (Fin (3 / 4)) (Fin 1)) =
     Inr (ErrorValue_ctor (Fin (arctan (3 / 4))) (Fin (4 / 5)))
   \<and> (1::real) / (1 + (3 / 4)\<^sup>2) = 16 / 25"
proof -
  have m: "fmul (Fin (3 / 4)) (Fin (3 / 4)) = Fin (9 / 16)"
    by simp
  have a: "fadd (Fin 1) (Fin (9 / 16)) = Fin (25 / 16)"
    by simp
  have r: "fsqrt (Fin (25 / 16)) = Fin (5 / 4)"
    by (simp only: fsqrt.simps sqrt_25_16) simp
  have d: "fdiv (Fin 1) (Fin (5 / 4)) = Fin (4 / 5)"
    by simp
  have "errmath_atan (ErrorValue_ctor (Fin (3 / 4)) (Fin 1)) =
     Inr (ErrorValue_ctor (Fin (arctan (3 / 4))) (Fin (4 / 5)))"
    unfolding errmath_atan_def ErrorValue_ctor_def
    by (simp only: ErrorValue.simps m a r d fatan.simps)
  moreover have "(1::real) / (1 + (3 / 4)\<^sup>2) = 16 / 25"
    by (simp add: power2_eq_square)
  ultimately show ?thesis
    by (rule conjI)
qed

subsection \<open>What the statements of the compound assignments compute\<close>

lemma length_wr [simp]:
  "length (wr_value p v s) = length s" "length (wr_error p e s) = length s"
  by (simp_all add: wr_value_def wr_error_def)

text \<open>The receiver and the operand are two objects.\<close>

lemma add_assign_distinct:
  assumes "this < length s" "this \<noteq> ev"
  shows "add_assign this ev s =
     FlowsOffEnd (s[this := (s ! this)\<lparr>ev_value := fadd (ev_value (s ! this)) (ev_value (s ! ev)),
                                  ev_error := fadd (ev_error (s ! this)) (ev_error (s ! ev))\<rparr>])"
  using assms
  by (simp add: add_assign_def Let_def wr_value_def wr_error_def rd_value_def rd_error_def)

lemma sub_assign_distinct:
  assumes "this < length s" "this \<noteq> ev"
  shows "sub_assign this ev s =
     FlowsOffEnd (s[this := (s ! this)\<lparr>ev_value := fsub (ev_value (s ! this)) (ev_value (s ! ev)),
                                  ev_error := fadd (ev_error (s ! this)) (ev_error (s ! ev))\<rparr>])"
  using assms
  by (simp add: sub_assign_def Let_def wr_value_def wr_error_def rd_value_def rd_error_def)

lemma mul_assign_distinct:
  assumes "this < length s" "this \<noteq> ev"
  shows "mul_assign this ev s =
     FlowsOffEnd (s[this := (s ! this)\<lparr>ev_value := fmul (ev_value (s ! this)) (ev_value (s ! ev)),
        ev_error := fmul (fmul (ev_value (s ! this)) (ev_value (s ! ev)))
                      (fadd (fdiv (ev_error (s ! this)) (ev_value (s ! this)))
                            (fdiv (ev_error (s ! ev)) (ev_value (s ! ev))))\<rparr>])"
  using assms
  by (simp add: mul_assign_def Let_def wr_value_def wr_error_def rd_value_def rd_error_def)

lemma div_assign_distinct:
  assumes "this < length s" "this \<noteq> ev"
  shows "div_assign this ev s =
     FlowsOffEnd (s[this := (s ! this)\<lparr>ev_value := fdiv (ev_value (s ! this)) (ev_value (s ! ev)),
        ev_error := fmul (fdiv (ev_value (s ! this)) (ev_value (s ! ev)))
                      (fadd (fdiv (ev_error (s ! this)) (ev_value (s ! this)))
                            (fdiv (ev_error (s ! ev)) (ev_value (s ! ev))))\<rparr>])"
  using assms
  by (simp add: div_assign_def Let_def wr_value_def wr_error_def rd_value_def rd_error_def)

text \<open>
  The operand is the receiver (\<^verbatim>\<open>a *= a\<close>, \<^verbatim>\<open>a /= a\<close>): the last division reads
  \<^verbatim>\<open>ev.value\<close> after the receiver's value was overwritten.
\<close>

lemma mul_assign_self:
  assumes "this < length s"
  shows "mul_assign this this s =
     FlowsOffEnd (s[this := (s ! this)\<lparr>ev_value := fmul (ev_value (s ! this)) (ev_value (s ! this)),
        ev_error := fmul (fmul (ev_value (s ! this)) (ev_value (s ! this)))
                      (fadd (fdiv (ev_error (s ! this)) (ev_value (s ! this)))
                            (fdiv (ev_error (s ! this))
                               (fmul (ev_value (s ! this)) (ev_value (s ! this)))))\<rparr>])"
  using assms
  by (simp add: mul_assign_def Let_def wr_value_def wr_error_def rd_value_def rd_error_def)

lemma div_assign_self:
  assumes "this < length s"
  shows "div_assign this this s =
     FlowsOffEnd (s[this := (s ! this)\<lparr>ev_value := fdiv (ev_value (s ! this)) (ev_value (s ! this)),
        ev_error := fmul (fdiv (ev_value (s ! this)) (ev_value (s ! this)))
                      (fadd (fdiv (ev_error (s ! this)) (ev_value (s ! this)))
                            (fdiv (ev_error (s ! this))
                               (fdiv (ev_value (s ! this)) (ev_value (s ! this)))))\<rparr>])"
  using assms
  by (simp add: div_assign_def Let_def wr_value_def wr_error_def rd_value_def rd_error_def)

text \<open>
  A binary operator calls the compound assignment on its local copy, which is never
  the operand. When the call flows off its end the copy holds the result, behind the
  objects of the store, which are as before the call.
\<close>

lemma run_on_copy_flows:
  assumes "this < length s" "ev < length s"
    and "assign (length s) ev (s @ [s ! this]) = FlowsOffEnd ((s @ [s ! this])[length s := r])"
  shows "run_on_copy assign this ev s = FlowsOffEnd (s @ [r])"
  using assms by (simp add: run_on_copy_def Let_def)

lemma op_add_eq:
  assumes "this < length s" "ev < length s"
  shows "op_add this ev s =
     FlowsOffEnd (s @ [(s ! this)\<lparr>ev_value := fadd (ev_value (s ! this)) (ev_value (s ! ev)),
                      ev_error := fadd (ev_error (s ! this)) (ev_error (s ! ev))\<rparr>])"
  unfolding op_add_def using assms
  by (intro run_on_copy_flows) (simp_all add: add_assign_distinct nth_append)

lemma op_sub_eq:
  assumes "this < length s" "ev < length s"
  shows "op_sub this ev s =
     FlowsOffEnd (s @ [(s ! this)\<lparr>ev_value := fsub (ev_value (s ! this)) (ev_value (s ! ev)),
                      ev_error := fadd (ev_error (s ! this)) (ev_error (s ! ev))\<rparr>])"
  unfolding op_sub_def using assms
  by (intro run_on_copy_flows) (simp_all add: sub_assign_distinct nth_append)

lemma op_mul_eq:
  assumes "this < length s" "ev < length s"
  shows "op_mul this ev s =
     FlowsOffEnd (s @ [(s ! this)\<lparr>ev_value := fmul (ev_value (s ! this)) (ev_value (s ! ev)),
        ev_error := fmul (fmul (ev_value (s ! this)) (ev_value (s ! ev)))
                      (fadd (fdiv (ev_error (s ! this)) (ev_value (s ! this)))
                            (fdiv (ev_error (s ! ev)) (ev_value (s ! ev))))\<rparr>])"
  unfolding op_mul_def using assms
  by (intro run_on_copy_flows) (simp_all add: mul_assign_distinct nth_append)

lemma op_div_eq:
  assumes "this < length s" "ev < length s"
  shows "op_div this ev s =
     FlowsOffEnd (s @ [(s ! this)\<lparr>ev_value := fdiv (ev_value (s ! this)) (ev_value (s ! ev)),
        ev_error := fmul (fdiv (ev_value (s ! this)) (ev_value (s ! ev)))
                      (fadd (fdiv (ev_error (s ! this)) (ev_value (s ! this)))
                            (fdiv (ev_error (s ! ev)) (ev_value (s ! ev))))\<rparr>])"
  unfolding op_div_def using assms
  by (intro run_on_copy_flows) (simp_all add: div_assign_distinct nth_append)

text \<open>No call of a compound assignment returns, whatever the operands.\<close>

lemma compound_assignments_never_return:
  "add_assign this ev s \<noteq> Returns r s'" "sub_assign this ev s \<noteq> Returns r s'"
  "mul_assign this ev s \<noteq> Returns r s'" "div_assign this ev s \<noteq> Returns r s'"
  by (simp_all add: add_assign_def sub_assign_def mul_assign_def div_assign_def Let_def)

lemma binary_operators_never_return:
  "op_add this ev s \<noteq> Returns r s'" "op_sub this ev s \<noteq> Returns r s'"
  "op_mul this ev s \<noteq> Returns r s'" "op_div this ev s \<noteq> Returns r s'"
  by (simp_all add: op_add_def op_sub_def op_mul_def op_div_def run_on_copy_def
      add_assign_def sub_assign_def mul_assign_def div_assign_def Let_def)

lemma fdiv_zero_not_finite: "\<not> is_finite (fdiv x (Fin 0))"
  by (cases x) simp_all

lemma fmul_not_finite: "\<not> is_finite x \<Longrightarrow> \<not> is_finite (fmul x y)"
  by (cases x; cases y) simp_all



subsection \<open>The binary operators do not return\<close>

text \<open>
  Claim C9: the operators \<open>a + b\<close>, \<open>a - b\<close>, \<open>a * b\<close> and \<open>a / b\<close> leave both
  operands unmodified, and only the returned object carries the result. The code
  returns no object: each operator calls a compound assignment that has no
  \<^verbatim>\<open>return\<close> statement. With \<open>a = ErrorValue(8, 1)\<close> and \<open>b = ErrorValue(2, 0.5)\<close> the
  statements compute the results \<open>(10, 1.5)\<close>, \<open>(6, 1.5)\<close>, \<open>(16, 6)\<close> and \<open>(4, 1.5)\<close> in
  the local copy, and every call then flows off the end of the compound assignment.
\<close>

theorem binary_operators_flow_off_end:
  "op_add 0 1 [ErrorValue_ctor (Fin 8) (Fin 1), ErrorValue_ctor (Fin 2) (Fin (1 / 2))] =
     FlowsOffEnd [ErrorValue_ctor (Fin 8) (Fin 1), ErrorValue_ctor (Fin 2) (Fin (1 / 2)),
                  ErrorValue_ctor (Fin 10) (Fin (3 / 2))]
   \<and> op_sub 0 1 [ErrorValue_ctor (Fin 8) (Fin 1), ErrorValue_ctor (Fin 2) (Fin (1 / 2))] =
     FlowsOffEnd [ErrorValue_ctor (Fin 8) (Fin 1), ErrorValue_ctor (Fin 2) (Fin (1 / 2)),
                  ErrorValue_ctor (Fin 6) (Fin (3 / 2))]
   \<and> op_mul 0 1 [ErrorValue_ctor (Fin 8) (Fin 1), ErrorValue_ctor (Fin 2) (Fin (1 / 2))] =
     FlowsOffEnd [ErrorValue_ctor (Fin 8) (Fin 1), ErrorValue_ctor (Fin 2) (Fin (1 / 2)),
                  ErrorValue_ctor (Fin 16) (Fin 6)]
   \<and> op_div 0 1 [ErrorValue_ctor (Fin 8) (Fin 1), ErrorValue_ctor (Fin 2) (Fin (1 / 2))] =
     FlowsOffEnd [ErrorValue_ctor (Fin 8) (Fin 1), ErrorValue_ctor (Fin 2) (Fin (1 / 2)),
                  ErrorValue_ctor (Fin 4) (Fin (3 / 2))]"
  by (simp add: op_add_eq op_sub_eq op_mul_eq op_div_eq ErrorValue_ctor_def fsub_def)

subsection \<open>Division by an object whose value is zero\<close>

text \<open>
  Claim C2, as stated, fails: with \<open>a = ErrorValue(1, 0.5)\<close> and \<open>b = ErrorValue(0, 0.5)\<close>,
  neither \<open>a / b\<close> nor \<open>a /= b\<close> throws. The statements of \<^verbatim>\<open>operator/=\<close> divide by
  the zero and compute plus infinity for the value and for the error, in the copy of
  \<open>a\<close> for \<open>a / b\<close> and in \<open>a\<close> itself for \<open>a /= b\<close>.
\<close>

theorem div_by_zero_counterexample:
  "op_div 0 1 [ErrorValue_ctor (Fin 1) (Fin (1 / 2)), ErrorValue_ctor (Fin 0) (Fin (1 / 2))] =
     FlowsOffEnd [ErrorValue_ctor (Fin 1) (Fin (1 / 2)), ErrorValue_ctor (Fin 0) (Fin (1 / 2)),
                  ErrorValue_ctor PInf PInf]
   \<and> div_assign 0 1 [ErrorValue_ctor (Fin 1) (Fin (1 / 2)), ErrorValue_ctor (Fin 0) (Fin (1 / 2))] =
     FlowsOffEnd [ErrorValue_ctor PInf PInf, ErrorValue_ctor (Fin 0) (Fin (1 / 2))]"
  by (simp add: op_div_eq div_assign_distinct ErrorValue_ctor_def)

text \<open>
  Claim C2, amended: when \<open>value(b)\<close> is zero, neither \<open>a / b\<close> nor \<open>a /= b\<close> fails
  with a division-by-zero error, for there is no check. The statements of
  \<^verbatim>\<open>operator/=\<close> divide by the zero value, and the value and the error they compute
  are both an infinity or NaN. For \<open>a / b\<close> they work on a copy of \<open>a\<close>, behind a
  store that is as before the call; for \<open>a /= b\<close> they work on \<open>a\<close> and touch no
  other object.
\<close>

theorem div_by_zero_behaviour:
  assumes "this < length s" and "ev < length s" and "ev_value (s ! ev) = Fin 0"
  shows "(\<exists>r. op_div this ev s = FlowsOffEnd (s @ [r])
              \<and> \<not> is_finite (ev_value r) \<and> \<not> is_finite (ev_error r))
       \<and> (\<exists>s'. div_assign this ev s = FlowsOffEnd s' \<and> length s' = length s
              \<and> \<not> is_finite (ev_value (s' ! this)) \<and> \<not> is_finite (ev_error (s' ! this))
              \<and> (\<forall>p<length s. p \<noteq> this \<longrightarrow> s' ! p = s ! p))"
proof -
  have nf: "\<not> is_finite (fdiv (ev_value (s ! this)) (ev_value (s ! ev)))"
    using assms(3) by (simp add: fdiv_zero_not_finite)
  have a: "\<exists>r. op_div this ev s = FlowsOffEnd (s @ [r])
              \<and> \<not> is_finite (ev_value r) \<and> \<not> is_finite (ev_error r)"
    using assms(1,2) nf by (simp add: op_div_eq fmul_not_finite)
  have b: "\<exists>s'. div_assign this ev s = FlowsOffEnd s' \<and> length s' = length s
              \<and> \<not> is_finite (ev_value (s' ! this)) \<and> \<not> is_finite (ev_error (s' ! this))
              \<and> (\<forall>p<length s. p \<noteq> this \<longrightarrow> s' ! p = s ! p)"
  proof (cases "this = ev")
    case True
    with assms nf show ?thesis
      by (simp add: div_assign_self fmul_not_finite)
  next
    case False
    with assms nf show ?thesis
      by (simp add: div_assign_distinct fmul_not_finite)
  qed
  from a b show ?thesis
    by (rule conjI)
qed

theorem div_by_zero_behaviour_witness:
  "(0::nat) < length [ErrorValue_ctor (Fin 1) (Fin (1 / 2)), ErrorValue_ctor (Fin 0) (Fin (1 / 2))]
   \<and> (1::nat) < length [ErrorValue_ctor (Fin 1) (Fin (1 / 2)), ErrorValue_ctor (Fin 0) (Fin (1 / 2))]
   \<and> ev_value ([ErrorValue_ctor (Fin 1) (Fin (1 / 2)), ErrorValue_ctor (Fin 0) (Fin (1 / 2))] ! 1) = Fin 0
   \<and> (\<exists>r. op_div 0 1 [ErrorValue_ctor (Fin 1) (Fin (1 / 2)), ErrorValue_ctor (Fin 0) (Fin (1 / 2))]
            = FlowsOffEnd
                ([ErrorValue_ctor (Fin 1) (Fin (1 / 2)), ErrorValue_ctor (Fin 0) (Fin (1 / 2))] @ [r])
          \<and> \<not> is_finite (ev_value r) \<and> \<not> is_finite (ev_error r))"
  using div_by_zero_behaviour
    [of 0 "[ErrorValue_ctor (Fin 1) (Fin (1 / 2)), ErrorValue_ctor (Fin 0) (Fin (1 / 2))]" 1]
  by (simp add: ErrorValue_ctor_def)

subsection \<open>The error of a product\<close>




subsection \<open>A product with an operand whose value is zero\<close>



subsection \<open>The bounds\<close>




subsection \<open>Arguments outside the domain of a function\<close>




subsection \<open>The half-unit error of a bare literal\<close>

text \<open>
  The first loop counts the trailing zero digits of an integer that is not zero, and
  returns.
\<close>

lemma while1_count:
  "\<not> 10 dvd m \<Longrightarrow> halfErrorCalcFunction_while1 (m * 10 ^ k) c = Some (c + int k)"
proof (induction k arbitrary: c)
  case 0
  then show ?case
    by (subst halfErrorCalcFunction_while1.simps) (simp add: dvd_eq_mod_eq_0)
next
  case (Suc k)
  have "halfErrorCalcFunction_while1 (m * 10 ^ Suc k) c =
          halfErrorCalcFunction_while1 (m * 10 ^ k) (c + 1)"
    by (subst halfErrorCalcFunction_while1.simps) simp
  with Suc show ?case
    by simp
qed

lemma halfErrorCalcFunction_integral:
  assumes "\<not> 10 dvd m"
  shows "halfErrorCalcFunction (m * 10 ^ k) = Some (Fin (5 * 10 powi (int k - 1)))"
  using while1_count [OF assms, of k 0] by (simp add: halfErrorCalcFunction_def)

lemma halfErrorCalcFunction_100: "halfErrorCalcFunction 100 = Some (Fin 50)"
  using halfErrorCalcFunction_integral [of 1 2] by simp

lemma halfErrorCalcFunction_1: "halfErrorCalcFunction 1 = Some (Fin (1 / 2))"
  using halfErrorCalcFunction_integral [of 1 0] by simp

text \<open>The literal zero never leaves the first loop: no error is returned for it.\<close>

lemma while1_Some_nonzero:
  assumes "halfErrorCalcFunction_while1 x c = Some y"
  shows "x \<noteq> 0"
proof -
  have "(case (x, c) of (a, b) \<Rightarrow> \<lambda>r. a \<noteq> 0) y"
  proof (rule halfErrorCalcFunction_while1.raw_induct
      [where P = "\<lambda>a b r. a \<noteq> 0" and xa = "(x, c)" and y = y])
    fix f :: "int \<Rightarrow> int \<Rightarrow> int option" and a b r
    assume IH: "\<And>c b y. f c b = Some y \<Longrightarrow> c \<noteq> 0"
      and body: "(if a mod 10 = 0 then f (a div 10) (b + 1) else Some b) = Some r"
    show "a \<noteq> 0"
    proof
      assume "a = 0"
      with body have "f 0 (b + 1) = Some r"
        by simp
      from IH [OF this] show False
        by simp
    qed
  next
    show "(case (x, c) of (a, b) \<Rightarrow> halfErrorCalcFunction_while1 a b) = Some y"
      using assms by simp
  qed
  then show ?thesis
    by simp
qed

lemma halfErrorCalcFunction_zero_diverges:
  "halfErrorCalcFunction 0 = None"
proof -
  have "halfErrorCalcFunction_while1 0 0 = None"
    using while1_Some_nonzero [of 0 0] by (cases "halfErrorCalcFunction_while1 0 0") simp_all
  then show ?thesis
    by (simp add: halfErrorCalcFunction_def)
qed

text \<open>
  Claim C5: under the HalfUnit policy the literal \<open>100\<close> is given the error \<open>50\<close>, the
  literal \<open>1\<close> the error \<open>0.5\<close> and the literal \<open>1.5\<close> the error \<open>0.05\<close>. The code gives
  the first two (\<open>halfErrorCalcFunction_100\<close>, \<open>halfErrorCalcFunction_1\<close>) and not the
  third: the function exists for an integral \<^verbatim>\<open>T\<close> only, the literal \<open>1.5\<close> reaches
  it as the integer \<open>1\<close>, and the error returned is \<open>0.5\<close>, where the claim says
  \<open>0.05\<close>.
\<close>

theorem halfErrorCalcFunction_literal_3_2:
  "T_of_literal (3 / 2) = 1
   \<and> halfErrorCalcFunction (T_of_literal (3 / 2)) = Some (Fin (1 / 2))
   \<and> Fin (1 / 2) \<noteq> Fin (1 / 20)"
proof -
  have t: "T_of_literal (3 / 2) = 1"
    by (simp add: T_of_literal_def)
  show ?thesis
    by (simp add: t halfErrorCalcFunction_1)
qed

end
